theory Spec2Isabelle
  imports Complex_Main
begin

section \<open>JavaScript values read by \<open>lib/cli.js\<close>\<close>

text \<open>
  The arguments object handed to the parse callback is an untyped JavaScript object.
  Its fields hold whatever the command-line parser produced: \<open>undefined\<close> for an
  option that was not given, a boolean for a flag, a number (possibly \<open>NaN\<close>) for a
  numeric option, a string, or an array. A JavaScript number is a double; only its
  truthiness and its identity matter here, so a finite number is carried as a real.
\<close>

datatype number = Num real | NaN | PosInfinity | NegInfinity

datatype jsval =
    JUndefined
  | JNull
  | JBool bool
  | JNum number
  | JStr string
  | JArr "jsval list"
  | JObj "(string \<times> jsval) list"

text \<open>Truthiness, as an \<open>if (v)\<close> of the source tests it.\<close>

fun number_truthy :: "number \<Rightarrow> bool" where
  "number_truthy (Num r) = (r \<noteq> 0)"
| "number_truthy NaN = False"
| "number_truthy PosInfinity = True"
| "number_truthy NegInfinity = True"

fun truthy :: "jsval \<Rightarrow> bool" where
  "truthy JUndefined = False"
| "truthy JNull = False"
| "truthy (JBool b) = b"
| "truthy (JNum n) = number_truthy n"
| "truthy (JStr s) = (s \<noteq> [])"
| "truthy (JArr xs) = True"
| "truthy (JObj kvs) = True"

text \<open>\<open>a || b\<close> yields the left operand when it is truthy and the right one otherwise.\<close>

definition js_or :: "jsval \<Rightarrow> jsval \<Rightarrow> jsval" where
  "js_or a b = (if truthy a then a else b)"

text \<open>
  \<open>v.length\<close> for a value \<open>v\<close> that is neither \<open>undefined\<close> nor \<open>null\<close> (the source
  reads it only behind \<open>args.input &&\<close>, so only on a truthy value).
\<close>

fun js_length :: "jsval \<Rightarrow> jsval" where
  "js_length (JArr xs) = JNum (Num (real (length xs)))"
| "js_length (JStr s) = JNum (Num (real (length s)))"
| "js_length (JObj kvs) = (case map_of kvs ''length'' of Some v \<Rightarrow> v | None \<Rightarrow> JUndefined)"
| "js_length v = JUndefined"

section \<open>The resolved arguments\<close>

text \<open>The fields of \<open>args\<close> that the parse callback reads, under the source's names.\<close>

record args =
  input :: jsval
  format :: jsval
  chromaSubsampling :: jsval
  optimise :: jsval
  optimiseScans :: jsval
  overshootDeringing :: jsval
  progressive :: jsval
  quality :: jsval
  trellisQuantisation :: jsval
  limitInputPixels :: jsval
  adaptiveFiltering :: jsval
  compressionLevel :: jsval
  sequentialRead :: jsval
  withMetadata :: jsval

section \<open>The operation queue\<close>

text \<open>
  A queue entry is the pair \<open>[ label, (sharp) => sharp.method(arguments) ]\<close>. The closure
  is represented by the engine call it makes: the method name and the argument values.
  Entries pushed by the command handlers (\<open>cmd/*\<close>) are closures this file never looks
  into; they are carried as \<open>Handler\<close> values of an arbitrary type.
\<close>

datatype 'h operation =
    EngineCall string "jsval list"
  | Handler 'h

type_synonym 'h entry = "string \<times> 'h operation"

type_synonym 'h queue = "'h entry list"

text \<open>
  Modelled from the spec: \<open>lib/queue.js\<close> is required by \<open>lib/cli.js\<close> but is not among
  the sources. The spec describes the Operation Queue as an ordered mutable list of
  (name, operation) pairs that supports append-to-end and insert-at-front, where the last
  entry prepended is the new front; \<open>unshift\<close> is the insert-at-front.
\<close>

definition unshift :: "'h entry \<Rightarrow> 'h queue \<Rightarrow> 'h queue" where
  "unshift e q = e # q"

section \<open>The override of \<open>cli.parse\<close>\<close>

text \<open>The options object passed to \<open>sharp.jpeg\<close>.\<close>

definition jpeg_options :: "args \<Rightarrow> jsval" where
  "jpeg_options a = JObj
     [ (''chromaSubsampling'', chromaSubsampling a),
       (''force'', JBool False),
       (''optimiseScans'', js_or (optimise a) (optimiseScans a)),
       (''overshootDeringing'', js_or (optimise a) (overshootDeringing a)),
       (''progressive'', progressive a),
       (''quality'', quality a),
       (''trellisQuantisation'', js_or (optimise a) (trellisQuantisation a)) ]"

text \<open>The options object passed to \<open>sharp.png\<close>.\<close>

definition png_options :: "args \<Rightarrow> jsval" where
  "png_options a = JObj
     [ (''adaptiveFiltering'', adaptiveFiltering a),
       (''compressionLevel'', compressionLevel a),
       (''force'', JBool False),
       (''progressive'', progressive a) ]"

text \<open>The options object passed to \<open>sharp.tiff\<close> and to \<open>sharp.webp\<close>.\<close>

definition quality_options :: "args \<Rightarrow> jsval" where
  "quality_options a = JObj [ (''force'', JBool False), (''quality'', quality a) ]"

text \<open>
  The block under \<open>// Global Options.\<close>: eight tests in the order of the source, each
  one an \<open>unshift\<close> on the queue the previous ones left.
\<close>

definition global_options :: "args \<Rightarrow> 'h queue \<Rightarrow> 'h queue" where
  "global_options a q0 =
    (let q1 = (if truthy (format a)
               then unshift (''format'', EngineCall ''toFormat'' [format a]) q0 else q0);
         q2 = (if truthy (chromaSubsampling a) \<or> truthy (optimise a) \<or>
                  truthy (optimiseScans a) \<or> truthy (overshootDeringing a) \<or>
                  truthy (progressive a) \<or> truthy (quality a) \<or>
                  truthy (trellisQuantisation a)
               then unshift (''jpeg'', EngineCall ''jpeg'' [jpeg_options a]) q1 else q1);
         q3 = (if JUndefined \<noteq> limitInputPixels a
               then unshift (''limitInputPixels'',
                             EngineCall ''limitInputPixels'' [limitInputPixels a]) q2
               else q2);
         q4 = (if truthy (adaptiveFiltering a) \<or> truthy (compressionLevel a) \<or>
                  truthy (progressive a)
               then unshift (''png'', EngineCall ''png'' [png_options a]) q3 else q3);
         q5 = (if truthy (sequentialRead a)
               then unshift (''sequentialRead'', EngineCall ''sequentialRead'' []) q4 else q4);
         q6 = (if truthy (quality a)
               then unshift (''webp'', EngineCall ''webp'' [quality_options a])
                      (unshift (''tiff'', EngineCall ''tiff'' [quality_options a]) q5)
               else q5);
         q7 = (if truthy (withMetadata a)
               then unshift (''withMetadata'', EngineCall ''withMetadata'' []) q6 else q6)
     in q7)"

text \<open>An \<open>Error\<close> object, by its message.\<close>

datatype error = Error string

text \<open>
  The callback that the override hands to the original \<open>parse\<close>. It receives the error
  (\<open>None\<close> when there is none) and the arguments (\<open>None\<close> for \<open>null\<close>), works on the
  shared queue, and passes error and arguments on to the caller's callback. The result is
  the error passed on and the queue as it is left.
\<close>

definition parse_callback :: "error option \<Rightarrow> args option \<Rightarrow> 'h queue \<Rightarrow> error option \<times> 'h queue" where
  "parse_callback err args q =
    (case args of
       None \<Rightarrow> (err, q)
     | Some a \<Rightarrow>
         (let err' = (if truthy (input a) \<and> js_length (input a) = JNum (Num 0)
                      then Some (Error ''Not enough arguments following: i, input'')
                      else err)
          in (err', global_options a q)))"

text \<open>Arguments in which no option was given.\<close>

definition no_args :: args where
  "no_args = \<lparr> input = JUndefined, format = JUndefined, chromaSubsampling = JUndefined,
     optimise = JUndefined, optimiseScans = JUndefined, overshootDeringing = JUndefined,
     progressive = JUndefined, quality = JUndefined, trellisQuantisation = JUndefined,
     limitInputPixels = JUndefined, adaptiveFiltering = JUndefined,
     compressionLevel = JUndefined, sequentialRead = JUndefined,
     withMetadata = JUndefined \<rparr>"

text \<open>The conditions of the JPEG and of the PNG test.\<close>

definition jpeg_trigger :: "args \<Rightarrow> bool" where
  "jpeg_trigger a =
    (truthy (chromaSubsampling a) \<or> truthy (optimise a) \<or> truthy (optimiseScans a) \<or>
     truthy (overshootDeringing a) \<or> truthy (progressive a) \<or> truthy (quality a) \<or>
     truthy (trellisQuantisation a))"

definition png_trigger :: "args \<Rightarrow> bool" where
  "png_trigger a =
    (truthy (adaptiveFiltering a) \<or> truthy (compressionLevel a) \<or> truthy (progressive a))"

text \<open>The entries \<open>es\<close> when the test \<open>c\<close> succeeds, none otherwise.\<close>

definition pushed :: "bool \<Rightarrow> 'a list \<Rightarrow> 'a list" where
  "pushed c es = (if c then es else [])"

text \<open>The labels of a queue's entries, front first.\<close>

definition labels :: "'h queue \<Rightarrow> string list" where
  "labels q = map fst q"

text \<open>The labels of the global-option entries, front first, as the source's tests leave them.\<close>

definition code_order :: "string list" where
  "code_order = [''withMetadata'', ''webp'', ''tiff'', ''sequentialRead'', ''png'',
     ''limitInputPixels'', ''jpeg'', ''format'']"

text \<open>
  The order that section 4.4 of the specification lists, head to tail: output format, JPEG,
  pixel limit, PNG, sequential read, TIFF, WEBP, metadata.
\<close>

definition spec_order :: "string list" where
  "spec_order = [''format'', ''jpeg'', ''limitInputPixels'', ''png'', ''sequentialRead'',
     ''tiff'', ''webp'', ''withMetadata'']"

text \<open>The order \<open>order\<close> restricted to the labels that occur in \<open>ls\<close>.\<close>

definition restrict_order :: "string list \<Rightarrow> string list \<Rightarrow> string list" where
  "restrict_order order ls = filter (\<lambda>l. l \<in> set ls) order"

section \<open>The option table\<close>

text \<open>
  The \<open>options\<close> object of the source, entry by entry, with the fields that constrain
  resolution (the descriptions and default descriptions are documentation). The two
  \<open>demand\<close> fields are \<open>IS_TEXT_TERMINAL\<close>, which the source reads from the process.
\<close>

datatype option_type = TString | TNumber | TBoolean | TArray

datatype option_group = Global | Optimization

record option_descriptor =
  name :: string
  aliases :: "string list"
  demand :: bool
  group :: option_group
  implies :: "string option"
  nargs :: "nat option"
  type :: "option_type option"

definition options :: "bool \<Rightarrow> option_descriptor list" where
  "options IS_TEXT_TERMINAL =
    [ \<lparr> name = ''compressionLevel'', aliases = [''c''], demand = False, group = Global,
        implies = None, nargs = Some 1, type = Some TNumber \<rparr>,
      \<lparr> name = ''format'', aliases = [''f''], demand = False, group = Global,
        implies = None, nargs = Some 1, type = None \<rparr>,
      \<lparr> name = ''input'', aliases = [''i''], demand = IS_TEXT_TERMINAL, group = Global,
        implies = Some ''output'', nargs = None, type = Some TArray \<rparr>,
      \<lparr> name = ''limitInputPixels'', aliases = [''l''], demand = False, group = Global,
        implies = None, nargs = Some 1, type = Some TNumber \<rparr>,
      \<lparr> name = ''output'', aliases = [''o''], demand = IS_TEXT_TERMINAL, group = Global,
        implies = None, nargs = Some 1, type = Some TString \<rparr>,
      \<lparr> name = ''progressive'', aliases = [''p''], demand = False, group = Global,
        implies = None, nargs = None, type = Some TBoolean \<rparr>,
      \<lparr> name = ''quality'', aliases = [''q''], demand = False, group = Global,
        implies = None, nargs = Some 1, type = Some TNumber \<rparr>,
      \<lparr> name = ''withMetadata'', aliases = [''m''], demand = False, group = Global,
        implies = None, nargs = None, type = Some TBoolean \<rparr>,
      \<lparr> name = ''adaptiveFiltering'', aliases = [], demand = False, group = Optimization,
        implies = None, nargs = None, type = Some TBoolean \<rparr>,
      \<lparr> name = ''chromaSubsampling'', aliases = [], demand = False, group = Optimization,
        implies = None, nargs = Some 1, type = Some TString \<rparr>,
      \<lparr> name = ''optimise'', aliases = [''optimize''], demand = False, group = Optimization,
        implies = None, nargs = None, type = Some TBoolean \<rparr>,
      \<lparr> name = ''optimiseScans'', aliases = [''optimizeScans''], demand = False,
        group = Optimization, implies = Some ''progressive'', nargs = None,
        type = Some TBoolean \<rparr>,
      \<lparr> name = ''overshootDeringing'', aliases = [], demand = False, group = Optimization,
        implies = None, nargs = None, type = Some TBoolean \<rparr>,
      \<lparr> name = ''sequentialRead'', aliases = [], demand = False, group = Optimization,
        implies = None, nargs = None, type = Some TBoolean \<rparr>,
      \<lparr> name = ''trellisQuantisation'', aliases = [], demand = False, group = Optimization,
        implies = None, nargs = None, type = Some TBoolean \<rparr> ]"

text \<open>
  Modelled from the spec: the resolution itself is done by the command-line parsing library
  behind \<open>originalParse\<close>, which is not among the sources. Section 4.2 names the
  structured parse errors: unknown flag, wrong arity, missing demanded option, failed
  \<open>implies\<close> constraint.
\<close>

datatype parse_error =
    UnknownFlag string
  | WrongArity string
  | MissingDemanded string
  | FailedImplies string string

text \<open>
  Modelled from the spec: the check of the \<open>implies\<close> declarations, absent from the sources
  for the same reason. Section 4.2: if option A declares \<open>implies: B\<close>, supplying A without B
  is a hard error. \<open>supplied\<close> holds the options given on the command line, under their
  canonical names, with their parsed values.
\<close>

definition implies_failures ::
  "option_descriptor list \<Rightarrow> (string \<times> jsval) list \<Rightarrow> (string \<times> string) list" where
  "implies_failures schema supplied =
     concat (map (\<lambda>d. case implies d of
                         None \<Rightarrow> []
                       | Some b \<Rightarrow>
                           if name d \<in> set (map fst supplied) \<and> b \<notin> set (map fst supplied)
                           then [(name d, b)] else []) schema)"

text \<open>
  Modelled from the spec: the resolver's output is either the Resolved Arguments or a
  structured parse error (section 4.2); of its checks, the one for \<open>implies\<close>.
\<close>

definition check_implies ::
  "option_descriptor list \<Rightarrow> (string \<times> jsval) list \<Rightarrow> parse_error + (string \<times> jsval) list" where
  "check_implies schema supplied =
     (case implies_failures schema supplied of
        [] \<Rightarrow> Inr supplied
      | (a, b) # _ \<Rightarrow> Inl (FailedImplies a b))"

section \<open>The shape of the queue after the global options\<close>

lemma pushed_simps:
  "pushed True es = es"
  "pushed False es = []"
  "pushed c [] = []"
  "map f (pushed c es) = pushed c (map f es)"
  "filter P (pushed c es) = pushed c (filter P es)"
  "x \<in> set (pushed c es) \<longleftrightarrow> c \<and> x \<in> set es"
  by (simp_all add: pushed_def)


lemma pushed_two: "pushed c [x, y] = pushed c [x] @ pushed c [y]"
  by (simp add: pushed_def)

lemma filter_cons_pushed: "filter P (x # xs) = pushed (P x) [x] @ filter P xs"
  by (simp add: pushed_def)

text \<open>
  Each test contributes its entries in front of everything the earlier tests and the
  command handlers left, so the last test's entry comes first.
\<close>

lemma global_options_append:
  "global_options a q =
     pushed (truthy (withMetadata a)) [(''withMetadata'', EngineCall ''withMetadata'' [])] @
     pushed (truthy (quality a))
        [(''webp'', EngineCall ''webp'' [quality_options a]),
         (''tiff'', EngineCall ''tiff'' [quality_options a])] @
     pushed (truthy (sequentialRead a)) [(''sequentialRead'', EngineCall ''sequentialRead'' [])] @
     pushed (png_trigger a) [(''png'', EngineCall ''png'' [png_options a])] @
     pushed (JUndefined \<noteq> limitInputPixels a)
        [(''limitInputPixels'', EngineCall ''limitInputPixels'' [limitInputPixels a])] @
     pushed (jpeg_trigger a) [(''jpeg'', EngineCall ''jpeg'' [jpeg_options a])] @
     pushed (truthy (format a)) [(''format'', EngineCall ''toFormat'' [format a])] @ q"
  unfolding jpeg_trigger_def png_trigger_def
  by (simp add: global_options_def unshift_def Let_def pushed_def)

lemma global_options_prefix: "global_options a q = global_options a [] @ q"
  by (simp add: global_options_append [of a q] global_options_append [of a "[]"])

lemma global_options_labels:
  "labels (global_options a q) =
     pushed (truthy (withMetadata a)) [''withMetadata''] @
     pushed (truthy (quality a)) [''webp'', ''tiff''] @
     pushed (truthy (sequentialRead a)) [''sequentialRead''] @
     pushed (png_trigger a) [''png''] @
     pushed (JUndefined \<noteq> limitInputPixels a) [''limitInputPixels''] @
     pushed (jpeg_trigger a) [''jpeg''] @
     pushed (truthy (format a)) [''format''] @ labels q"
  by (simp add: labels_def global_options_append pushed_simps)

lemma label_mem:
  "''withMetadata'' \<in> set (labels (global_options a [])) \<longleftrightarrow> truthy (withMetadata a)"
  "''webp'' \<in> set (labels (global_options a [])) \<longleftrightarrow> truthy (quality a)"
  "''tiff'' \<in> set (labels (global_options a [])) \<longleftrightarrow> truthy (quality a)"
  "''sequentialRead'' \<in> set (labels (global_options a [])) \<longleftrightarrow> truthy (sequentialRead a)"
  "''png'' \<in> set (labels (global_options a [])) \<longleftrightarrow> png_trigger a"
  "''limitInputPixels'' \<in> set (labels (global_options a [])) \<longleftrightarrow>
     JUndefined \<noteq> limitInputPixels a"
  "''jpeg'' \<in> set (labels (global_options a [])) \<longleftrightarrow> jpeg_trigger a"
  "''format'' \<in> set (labels (global_options a [])) \<longleftrightarrow> truthy (format a)"
  by (simp_all add: global_options_labels pushed_simps labels_def [of "[]"])


lemma implies_failures_member:
  "d \<in> set schema \<Longrightarrow> implies d = Some b \<Longrightarrow> name d \<in> set (map fst supplied) \<Longrightarrow>
   b \<notin> set (map fst supplied) \<Longrightarrow> (name d, b) \<in> set (implies_failures schema supplied)"
  unfolding implies_failures_def
  by (induction schema) (auto split: option.splits)

section \<open>The order of the global-option entries\<close>

text \<open>
  Section 4.4 of the specification lists the prefix head to tail as output format first and
  metadata toggle last. With an output format and the metadata toggle both requested, the
  source leaves the metadata entry at the front and the format entry behind it, so the
  labels of the queue are not the specification's order restricted to the entries present.
\<close>

theorem spec_order_counterexample:
  "labels (global_options (no_args\<lparr>format := JStr ''png'', withMetadata := JBool True\<rparr>)
      ([]::unit queue)) = [''withMetadata'', ''format''] \<and>
   restrict_order spec_order
     (labels (global_options (no_args\<lparr>format := JStr ''png'', withMetadata := JBool True\<rparr>)
        ([]::unit queue))) = [''format'', ''withMetadata''] \<and>
   labels (global_options (no_args\<lparr>format := JStr ''png'', withMetadata := JBool True\<rparr>)
      ([]::unit queue)) \<noteq>
   restrict_order spec_order
     (labels (global_options (no_args\<lparr>format := JStr ''png'', withMetadata := JBool True\<rparr>)
        ([]::unit queue)))"
  by (simp add: global_options_labels restrict_order_def spec_order_def pushed_simps no_args_def
      jpeg_trigger_def png_trigger_def labels_def [of "[]"])

text \<open>
  Claim C1, as the source has it. For all resolved arguments and every queue the command
  handlers left, the labels of the queue after the global options are: the fixed order
  metadata toggle, WEBP quality, TIFF quality, sequential read, PNG, pixel limit, JPEG,
  output format (the reverse of the list in section 4.4), restricted to the entries that
  were triggered, followed by the labels of the entries that were already there. The
  resolved arguments are a record, so the order of the flags on the command line plays no
  part.
\<close>

theorem global_prefix_order:
  "labels (global_options a q) =
     restrict_order code_order (labels (global_options a ([]::'h queue))) @ labels (q::'h queue)"
proof -
  have "filter (\<lambda>l. l \<in> set (labels (global_options a ([]::'h queue)))) code_order =
     pushed (truthy (withMetadata a)) [''withMetadata''] @
     pushed (truthy (quality a)) [''webp'', ''tiff''] @
     pushed (truthy (sequentialRead a)) [''sequentialRead''] @
     pushed (png_trigger a) [''png''] @
     pushed (JUndefined \<noteq> limitInputPixels a) [''limitInputPixels''] @
     pushed (jpeg_trigger a) [''jpeg''] @
     pushed (truthy (format a)) [''format'']"
    unfolding code_order_def
    by (simp only: filter_cons_pushed label_mem pushed_two filter.simps append_Nil2 append_assoc)
  then show ?thesis
    by (simp only: restrict_order_def global_options_labels [of a q] append_assoc)
qed

theorem global_prefix_order_witness:
  "labels (global_options
      (no_args\<lparr>format := JStr ''png'', quality := JNum (Num 90), withMetadata := JBool True\<rparr>)
      [(''resize'', Handler (0::nat))]) =
   [''withMetadata'', ''webp'', ''tiff'', ''jpeg'', ''format'', ''resize'']"
  using global_prefix_order
    [of "no_args\<lparr>format := JStr ''png'', quality := JNum (Num 90), withMetadata := JBool True\<rparr>"
      "[(''resize'', Handler (0::nat))]"]
  by (simp add: label_mem restrict_order_def code_order_def no_args_def jpeg_trigger_def
      png_trigger_def labels_def [of "[(''resize'', Handler (0::nat))]"])

section \<open>Quality alone, and quality with progressive\<close>

text \<open>
  With only a quality of 90 the queue does not hold exactly two entries: quality is one of
  the triggers of the JPEG test, so there are three, and one of them is the JPEG entry.
\<close>

theorem quality_only_two_entries_counterexample:
  "length (global_options (no_args\<lparr>quality := JNum (Num 90)\<rparr>) ([]::unit queue)) = 3 \<and>
   ''jpeg'' \<in> set (labels (global_options (no_args\<lparr>quality := JNum (Num 90)\<rparr>) ([]::unit queue)))"
  by (simp add: global_options_def unshift_def no_args_def labels_def)

text \<open>
  Claim C2, as the source has it. A quality of 90 and nothing else, on an empty queue,
  gives exactly three entries, front first: WEBP quality, TIFF quality and JPEG, and no PNG
  entry. A quality of 90 together with progressive gives exactly four: WEBP, TIFF, PNG and
  JPEG; progressive adds the PNG entry only, the JPEG entry being there already.
\<close>

theorem quality_only_entries:
  "global_options (no_args\<lparr>quality := JNum (Num 90)\<rparr>) ([]::'h queue) =
     [ (''webp'', EngineCall ''webp''
          [JObj [(''force'', JBool False), (''quality'', JNum (Num 90))]]),
       (''tiff'', EngineCall ''tiff''
          [JObj [(''force'', JBool False), (''quality'', JNum (Num 90))]]),
       (''jpeg'', EngineCall ''jpeg'' [JObj
          [(''chromaSubsampling'', JUndefined), (''force'', JBool False),
           (''optimiseScans'', JUndefined), (''overshootDeringing'', JUndefined),
           (''progressive'', JUndefined), (''quality'', JNum (Num 90)),
           (''trellisQuantisation'', JUndefined)]]) ] \<and>
   global_options (no_args\<lparr>quality := JNum (Num 90), progressive := JBool True\<rparr>)
       ([]::'h queue) =
     [ (''webp'', EngineCall ''webp''
          [JObj [(''force'', JBool False), (''quality'', JNum (Num 90))]]),
       (''tiff'', EngineCall ''tiff''
          [JObj [(''force'', JBool False), (''quality'', JNum (Num 90))]]),
       (''png'', EngineCall ''png'' [JObj
          [(''adaptiveFiltering'', JUndefined), (''compressionLevel'', JUndefined),
           (''force'', JBool False), (''progressive'', JBool True)]]),
       (''jpeg'', EngineCall ''jpeg'' [JObj
          [(''chromaSubsampling'', JUndefined), (''force'', JBool False),
           (''optimiseScans'', JUndefined), (''overshootDeringing'', JUndefined),
           (''progressive'', JBool True), (''quality'', JNum (Num 90)),
           (''trellisQuantisation'', JUndefined)]]) ]"
  by (simp add: global_options_def unshift_def no_args_def jpeg_options_def png_options_def
      quality_options_def js_or_def)

section \<open>Errors and the queue\<close>

text \<open>
  An input that was given with no paths makes the callback report the error, and the same
  call still puts the global-option entries on the queue: here the queue starts empty and
  does not end empty.
\<close>

theorem error_leaves_queue_counterexample:
  "fst (parse_callback None (Some (no_args\<lparr>input := JArr [], quality := JNum (Num 90)\<rparr>))
      ([]::unit queue)) = Some (Error ''Not enough arguments following: i, input'') \<and>
   snd (parse_callback None (Some (no_args\<lparr>input := JArr [], quality := JNum (Num 90)\<rparr>))
      ([]::unit queue)) \<noteq> []"
  by (simp add: parse_callback_def global_options_def unshift_def no_args_def)

text \<open>
  Claim C3, as the source has it. The test that guards the queue is on the arguments, not on
  the error. When the callback receives no arguments (\<open>null\<close>), the error is passed on and
  the queue is left as it was. When it receives arguments, the global-option entries of
  those arguments are put in front of the queue whatever the error is, the error for an
  empty input included; the entries that were there stay behind them, unchanged and in
  their order, and nothing is put after them.
\<close>

theorem parse_callback_queue:
  "parse_callback err None q = (err, q) \<and>
   snd (parse_callback err (Some a) q) = global_options a [] @ q"
  using global_options_prefix [of a q]
  by (simp add: parse_callback_def Let_def)

theorem parse_callback_queue_witness:
  "parse_callback (Some (Error ''Unknown argument: x'')) None [(''resize'', Handler (0::nat))] =
     (Some (Error ''Unknown argument: x''), [(''resize'', Handler 0)]) \<and>
   labels (snd (parse_callback (Some (Error ''Unknown argument: x''))
      (Some (no_args\<lparr>withMetadata := JBool True\<rparr>)) [(''resize'', Handler (0::nat))])) =
     [''withMetadata'', ''resize'']"
  using parse_callback_queue [of "Some (Error ''Unknown argument: x'')"
      "[(''resize'', Handler (0::nat))]" "no_args\<lparr>withMetadata := JBool True\<rparr>"]
  by (simp add: global_options_def unshift_def no_args_def labels_def)

section \<open>WEBP and TIFF quality\<close>

text \<open>
  A quality of 0 is a quality that was supplied, and it puts neither a WEBP nor a TIFF entry
  on the queue.
\<close>

theorem quality_zero_counterexample:
  "quality (no_args\<lparr>quality := JNum (Num 0)\<rparr>) \<noteq> JUndefined \<and>
   ''webp'' \<notin> set (labels (global_options (no_args\<lparr>quality := JNum (Num 0)\<rparr>) ([]::unit queue))) \<and>
   ''tiff'' \<notin> set (labels (global_options (no_args\<lparr>quality := JNum (Num 0)\<rparr>) ([]::unit queue)))"
  by (simp add: label_mem no_args_def)

text \<open>
  Claim C4, as the source has it. Whenever the quality is truthy (supplied, and neither 0
  nor \<open>NaN\<close>), the queue holds exactly one WEBP-quality entry and exactly one TIFF-quality
  entry among the global options, the WEBP entry directly in front of the TIFF entry: they
  stand at the front of the queue, or right behind the metadata entry when that one is
  there.
\<close>

theorem webp_before_tiff:
  "truthy (quality a) \<Longrightarrow>
   filter (\<lambda>e. fst e = ''webp'' \<or> fst e = ''tiff'') (global_options a ([]::'h queue)) =
     [ (''webp'', EngineCall ''webp'' [JObj [(''force'', JBool False), (''quality'', quality a)]]),
       (''tiff'', EngineCall ''tiff'' [JObj [(''force'', JBool False), (''quality'', quality a)]]) ] \<and>
   global_options a (q::'h queue) ! (if truthy (withMetadata a) then 1 else 0) =
     (''webp'', EngineCall ''webp'' [JObj [(''force'', JBool False), (''quality'', quality a)]]) \<and>
   global_options a q ! (if truthy (withMetadata a) then 2 else 1) =
     (''tiff'', EngineCall ''tiff'' [JObj [(''force'', JBool False), (''quality'', quality a)]])"
  by (simp add: global_options_append pushed_simps quality_options_def)

theorem webp_before_tiff_witness:
  "truthy (quality (no_args\<lparr>quality := JNum (Num 90)\<rparr>)) \<and>
   filter (\<lambda>e. fst e = ''webp'' \<or> fst e = ''tiff'')
      (global_options (no_args\<lparr>quality := JNum (Num 90)\<rparr>) ([]::unit queue)) =
     [ (''webp'', EngineCall ''webp''
          [JObj [(''force'', JBool False), (''quality'', JNum (Num 90))]]),
       (''tiff'', EngineCall ''tiff''
          [JObj [(''force'', JBool False), (''quality'', JNum (Num 90))]]) ]"
proof -
  have h: "truthy (quality (no_args\<lparr>quality := JNum (Num 90)\<rparr>))"
    by (simp add: no_args_def)
  from webp_before_tiff [OF h, where 'h = unit, THEN conjunct1] h
  show ?thesis by (simp add: no_args_def)
qed

section \<open>The optimise shorthand\<close>

text \<open>
  Claim C5. Take any resolved arguments. In one run optimise is supplied and none of
  optimiseScans, overshootDeringing and trellisQuantisation is set (each is \<open>undefined\<close> or
  \<open>false\<close>); in the other run optimise is not set and the three are all supplied; all other
  arguments are the same. Then both runs build a JPEG entry, and the two entries pass the
  same options object to the engine: the three options are \<open>true\<close> in it, and the other
  fields are those of the given arguments.
\<close>

theorem optimise_shorthand:
  "\<not> truthy u0 \<Longrightarrow> \<not> truthy u1 \<Longrightarrow> \<not> truthy u2 \<Longrightarrow> \<not> truthy u3 \<Longrightarrow>
   filter (\<lambda>e. fst e = ''jpeg'')
     (global_options (a\<lparr>optimise := JBool True, optimiseScans := u1, overshootDeringing := u2,
                        trellisQuantisation := u3\<rparr>) ([]::'h queue)) =
   filter (\<lambda>e. fst e = ''jpeg'')
     (global_options (a\<lparr>optimise := u0, optimiseScans := JBool True,
                        overshootDeringing := JBool True,
                        trellisQuantisation := JBool True\<rparr>) ([]::'h queue)) \<and>
   filter (\<lambda>e. fst e = ''jpeg'')
     (global_options (a\<lparr>optimise := JBool True, optimiseScans := u1, overshootDeringing := u2,
                        trellisQuantisation := u3\<rparr>) ([]::'h queue)) =
     [(''jpeg'', EngineCall ''jpeg'' [JObj
          [(''chromaSubsampling'', chromaSubsampling a), (''force'', JBool False),
           (''optimiseScans'', JBool True), (''overshootDeringing'', JBool True),
           (''progressive'', progressive a), (''quality'', quality a),
           (''trellisQuantisation'', JBool True)]])]"
  by (simp add: global_options_append pushed_simps jpeg_trigger_def jpeg_options_def js_or_def)

theorem optimise_shorthand_witness:
  "filter (\<lambda>e. fst e = ''jpeg'')
     (global_options (no_args\<lparr>optimise := JBool True, progressive := JBool True\<rparr>)
        ([]::unit queue)) =
   filter (\<lambda>e. fst e = ''jpeg'')
     (global_options (no_args\<lparr>optimiseScans := JBool True, overshootDeringing := JBool True,
                        progressive := JBool True, trellisQuantisation := JBool True\<rparr>)
        ([]::unit queue))"
proof -
  have h: "\<not> truthy JUndefined" by simp
  from optimise_shorthand [OF h h h h, of "no_args\<lparr>progressive := JBool True\<rparr>",
      where 'h = unit, THEN conjunct1]
  show ?thesis by (simp add: no_args_def)
qed

section \<open>The pixel limit\<close>

text \<open>
  Claim C6. The queue gets a limitInputPixels entry if and only if the field of the resolved
  arguments is not \<open>undefined\<close>, and then exactly one, carrying the value of the field. The
  number 0 is falsy, and a limit of 0 still gets its entry: the test is on presence.
\<close>

theorem limitInputPixels_presence:
  "(''limitInputPixels'' \<in> set (labels (global_options a ([]::'h queue)))) =
      (limitInputPixels a \<noteq> JUndefined) \<and>
   filter (\<lambda>e. fst e = ''limitInputPixels'') (global_options a ([]::'h queue)) =
     (if limitInputPixels a \<noteq> JUndefined
      then [(''limitInputPixels'', EngineCall ''limitInputPixels'' [limitInputPixels a])]
      else []) \<and>
   \<not> truthy (JNum (Num 0)) \<and>
   filter (\<lambda>e. fst e = ''limitInputPixels'')
      (global_options (a\<lparr>limitInputPixels := JNum (Num 0)\<rparr>) ([]::'h queue)) =
     [(''limitInputPixels'', EngineCall ''limitInputPixels'' [JNum (Num 0)])]"
proof (intro conjI)
  show "(''limitInputPixels'' \<in> set (labels (global_options a ([]::'h queue)))) =
      (limitInputPixels a \<noteq> JUndefined)"
    by (auto simp add: label_mem)
  show "filter (\<lambda>e. fst e = ''limitInputPixels'') (global_options a ([]::'h queue)) =
     (if limitInputPixels a \<noteq> JUndefined
      then [(''limitInputPixels'', EngineCall ''limitInputPixels'' [limitInputPixels a])]
      else [])"
    by (auto simp add: global_options_append pushed_simps)
  show "\<not> truthy (JNum (Num 0))"
    by simp
  show "filter (\<lambda>e. fst e = ''limitInputPixels'')
      (global_options (a\<lparr>limitInputPixels := JNum (Num 0)\<rparr>) ([]::'h queue)) =
     [(''limitInputPixels'', EngineCall ''limitInputPixels'' [JNum (Num 0)])]"
    by (simp add: global_options_append pushed_simps)
qed

theorem limitInputPixels_presence_witness:
  "filter (\<lambda>e. fst e = ''limitInputPixels'')
      (global_options (no_args\<lparr>limitInputPixels := JNum (Num 0)\<rparr>) ([]::unit queue)) =
     [(''limitInputPixels'', EngineCall ''limitInputPixels'' [JNum (Num 0)])] \<and>
   ''limitInputPixels'' \<notin> set (labels (global_options no_args ([]::unit queue)))"
  using limitInputPixels_presence [of no_args, where 'h = unit]
  by (simp add: no_args_def)

section \<open>The empty input\<close>

text \<open>
  Claim C7. When the input field of the resolved arguments is present and is an empty list,
  the callback reports the error \<open>Not enough arguments following: i, input\<close>, whatever error
  it received. When the input field is absent, and when it is a list that is not empty,
  the callback passes on the error it received and adds none of its own.
\<close>

theorem empty_input_error:
  "fst (parse_callback err (Some (a\<lparr>input := JArr []\<rparr>)) q) =
      Some (Error ''Not enough arguments following: i, input'') \<and>
   fst (parse_callback err (Some (a\<lparr>input := JUndefined\<rparr>)) q) = err \<and>
   fst (parse_callback err (Some (a\<lparr>input := JArr (x # xs)\<rparr>)) q) = err"
  by (simp add: parse_callback_def Let_def)

theorem empty_input_error_witness:
  "fst (parse_callback None (Some (no_args\<lparr>input := JArr []\<rparr>)) ([]::unit queue)) =
      Some (Error ''Not enough arguments following: i, input'') \<and>
   fst (parse_callback None (Some no_args) ([]::unit queue)) = None \<and>
   fst (parse_callback None (Some (no_args\<lparr>input := JArr [JStr ''in.jpg'']\<rparr>))
      ([]::unit queue)) = None"
  using empty_input_error [of None no_args "[]::unit queue" "JStr ''in.jpg''" "[]"]
  by (simp add: no_args_def)

section \<open>The implies declarations\<close>

text \<open>
  Claim C8. For every option of the table that declares \<open>implies: B\<close>, supplying the option
  without B makes the check fail with a parse error, so that no resolved arguments are
  returned. The table declares that optimiseScans implies progressive and that input implies
  output, so optimiseScans without progressive and input without output are rejected.
\<close>

theorem implies_unmet_rejected:
  "(\<forall>d \<in> set (options tty). \<forall>b. implies d = Some b \<longrightarrow>
       name d \<in> set (map fst supplied) \<longrightarrow> b \<notin> set (map fst supplied) \<longrightarrow>
       (\<exists>e. check_implies (options tty) supplied = Inl e)) \<and>
   (\<exists>d \<in> set (options tty). name d = ''optimiseScans'' \<and> implies d = Some ''progressive'') \<and>
   (\<exists>d \<in> set (options tty). name d = ''input'' \<and> implies d = Some ''output'')"
proof (intro conjI ballI allI impI)
  fix d b
  assume "d \<in> set (options tty)" "implies d = Some b" "name d \<in> set (map fst supplied)"
    "b \<notin> set (map fst supplied)"
  then have "(name d, b) \<in> set (implies_failures (options tty) supplied)"
    by (rule implies_failures_member)
  then obtain x xs where "implies_failures (options tty) supplied = x # xs"
    by (cases "implies_failures (options tty) supplied") auto
  then show "\<exists>e. check_implies (options tty) supplied = Inl e"
    by (cases x) (simp add: check_implies_def)
next
  show "\<exists>d \<in> set (options tty). name d = ''optimiseScans'' \<and> implies d = Some ''progressive''"
    by (simp add: options_def)
next
  show "\<exists>d \<in> set (options tty). name d = ''input'' \<and> implies d = Some ''output''"
    by (simp add: options_def)
qed

theorem implies_unmet_rejected_witness:
  "(\<exists>e. check_implies (options True) [(''optimiseScans'', JBool True)] = Inl e) \<and>
   (\<exists>e. check_implies (options True) [(''input'', JArr [JStr ''in.jpg''])] = Inl e)"
proof -
  note t = implies_unmet_rejected [of True]
  from t [of "[(''optimiseScans'', JBool True)]"]
  obtain d where d: "d \<in> set (options True)" "name d = ''optimiseScans''"
      "implies d = Some ''progressive''" by blast
  from t [of "[(''input'', JArr [JStr ''in.jpg''])]"]
  obtain d' where d': "d' \<in> set (options True)" "name d' = ''input''"
      "implies d' = Some ''output''" by blast
  have 1: "\<exists>e. check_implies (options True) [(''optimiseScans'', JBool True)] = Inl e"
    using t [of "[(''optimiseScans'', JBool True)]"] d by simp
  have 2: "\<exists>e. check_implies (options True) [(''input'', JArr [JStr ''in.jpg''])] = Inl e"
    using t [of "[(''input'', JArr [JStr ''in.jpg''])]"] d' by simp
  from 1 2 show ?thesis by simp
qed

section \<open>Two runs\<close>




section \<open>Zero at the truthiness gates\<close>

text \<open>
  Claim C10. A quality of 0 adds no TIFF and no WEBP entry, and a JPEG entry only when
  another of the JPEG triggers is truthy. A compressionLevel of 0 adds a PNG entry only when
  adaptiveFiltering or progressive is truthy. These gates test the value; the
  limitInputPixels gate tests presence, and a limit of 0 adds its entry.
\<close>

theorem zero_is_falsy_gate:
  "(quality a = JNum (Num 0) \<longrightarrow>
      ''tiff'' \<notin> set (labels (global_options a ([]::'h queue))) \<and>
      ''webp'' \<notin> set (labels (global_options a ([]::'h queue))) \<and>
      (''jpeg'' \<in> set (labels (global_options a ([]::'h queue))) \<longleftrightarrow>
         truthy (chromaSubsampling a) \<or> truthy (optimise a) \<or> truthy (optimiseScans a) \<or>
         truthy (overshootDeringing a) \<or> truthy (progressive a) \<or>
         truthy (trellisQuantisation a))) \<and>
   (compressionLevel a = JNum (Num 0) \<longrightarrow>
      (''png'' \<in> set (labels (global_options a ([]::'h queue))) \<longleftrightarrow>
         truthy (adaptiveFiltering a) \<or> truthy (progressive a))) \<and>
   (limitInputPixels a = JNum (Num 0) \<longrightarrow>
      ''limitInputPixels'' \<in> set (labels (global_options a ([]::'h queue))))"
  by (simp add: label_mem jpeg_trigger_def png_trigger_def)

theorem zero_is_falsy_gate_witness:
  "''tiff'' \<notin> set (labels (global_options (no_args\<lparr>quality := JNum (Num 0),
      limitInputPixels := JNum (Num 0), compressionLevel := JNum (Num 0)\<rparr>) ([]::unit queue))) \<and>
   ''webp'' \<notin> set (labels (global_options (no_args\<lparr>quality := JNum (Num 0),
      limitInputPixels := JNum (Num 0), compressionLevel := JNum (Num 0)\<rparr>) ([]::unit queue))) \<and>
   ''jpeg'' \<notin> set (labels (global_options (no_args\<lparr>quality := JNum (Num 0),
      limitInputPixels := JNum (Num 0), compressionLevel := JNum (Num 0)\<rparr>) ([]::unit queue))) \<and>
   ''png'' \<notin> set (labels (global_options (no_args\<lparr>quality := JNum (Num 0),
      limitInputPixels := JNum (Num 0), compressionLevel := JNum (Num 0)\<rparr>) ([]::unit queue))) \<and>
   ''limitInputPixels'' \<in> set (labels (global_options (no_args\<lparr>quality := JNum (Num 0),
      limitInputPixels := JNum (Num 0), compressionLevel := JNum (Num 0)\<rparr>) ([]::unit queue)))"
  using zero_is_falsy_gate [of "no_args\<lparr>quality := JNum (Num 0),
      limitInputPixels := JNum (Num 0), compressionLevel := JNum (Num 0)\<rparr>", where 'h = unit]
  by (simp add: no_args_def)

end
